theory Spec2Isabelle
  imports Main "HOL-Library.Word" "HOL-Library.Sublist"
begin

unbundle bit_operations_syntax

section \<open>Values and exceptions\<close>

text \<open>
  The cloud backend answers with JSON, which \<^verbatim>\<open>r.json()\<close> turns into Python values:
  \<^verbatim>\<open>None\<close>, booleans, numbers, strings, lists and dicts. A dict is kept as the list of
  its items, read with \<open>map_of\<close>. JSON numbers are integers here (the fields the module reads,
  \<^verbatim>\<open>PowerMode\<close>, \<^verbatim>\<open>Limit\<close>, are integer codes).
\<close>

datatype json =
    JNull
  | JBool bool
  | JInt int
  | JStr string
  | JArr "json list"
  | JObj "(string \<times> json) list"

text \<open>
  The exceptions that the modelled code can raise. \<open>Exception\<close> is the plain
  \<^verbatim>\<open>raise Exception(msg)\<close> of \<^verbatim>\<open>setpowermode\<close>; \<open>TransportError\<close> stands for whatever
  \<^verbatim>\<open>do_http\<close> or the websocket raises; \<open>RecursionError\<close> is raised by the interpreter
  when a call does not fit on the stack.
\<close>

datatype error =
    KeyError string
  | TypeError
  | ValueError
  | JSONDecodeError
  | UnicodeEncodeError
  | RecursionError
  | TransportError string
  | Exception string

text \<open>\<^verbatim>\<open>k in v\<close> for a string \<open>k\<close>: key membership on a dict, element membership on a
  list, substring test on a string, \<^verbatim>\<open>TypeError\<close> on the values that are not containers.\<close>

fun contains :: "string \<Rightarrow> json \<Rightarrow> error + bool" where
  "contains k (JObj kvs) = Inr (k \<in> fst ` set kvs)"
| "contains k (JArr xs) = Inr (JStr k \<in> set xs)"
| "contains k (JStr s) = Inr (sublist k s)"
| "contains k v = Inl TypeError"

text \<open>\<^verbatim>\<open>v[k]\<close> for a string \<open>k\<close>: \<^verbatim>\<open>KeyError\<close> on a dict without the key,
  \<^verbatim>\<open>TypeError\<close> on everything that is not a dict.\<close>

fun getitem :: "json \<Rightarrow> string \<Rightarrow> error + json" where
  "getitem (JObj kvs) k = (case map_of kvs k of None \<Rightarrow> Inl (KeyError k) | Some v \<Rightarrow> Inr v)"
| "getitem v k = Inl TypeError"

text \<open>Truth value of a Python value, as \<^verbatim>\<open>if v:\<close> tests it.\<close>

fun truthy :: "json \<Rightarrow> bool" where
  "truthy JNull = False"
| "truthy (JBool b) = b"
| "truthy (JInt n) = (n \<noteq> 0)"
| "truthy (JStr s) = (s \<noteq> [])"
| "truthy (JArr xs) = (xs \<noteq> [])"
| "truthy (JObj kvs) = (kvs \<noteq> [])"

section \<open>Power modes\<close>

text \<open>
  Modelled from the spec: the enumeration \<^verbatim>\<open>PowerMode\<close> of \<^verbatim>\<open>common.py\<close>, a closed
  tri-level scale \<open>{LOW, MEDIUM, HIGH}\<close>. The integer code of each member
  (\<^verbatim>\<open>mode.value\<close>) is a parameter \<open>pv\<close> of every function that needs it.
\<close>

datatype PowerMode = LOW | MEDIUM | HIGH

type_synonym codes = "PowerMode \<Rightarrow> int"

text \<open>\<^verbatim>\<open>str(mode)\<close> of an enum member.\<close>

fun str_PowerMode :: "PowerMode \<Rightarrow> string" where
  "str_PowerMode LOW = ''PowerMode.LOW''"
| "str_PowerMode MEDIUM = ''PowerMode.MEDIUM''"
| "str_PowerMode HIGH = ''PowerMode.HIGH''"

text \<open>The member with a given code, in definition order; \<^verbatim>\<open>ValueError\<close> when there is none.\<close>

definition member_of_code :: "codes \<Rightarrow> int \<Rightarrow> error + PowerMode" where
  "member_of_code pv n =
     (case find (\<lambda>m. pv m = n) [LOW, MEDIUM, HIGH] of
        None \<Rightarrow> Inl ValueError
      | Some m \<Rightarrow> Inr m)"

text \<open>
  The call \<^verbatim>\<open>PowerMode(v)\<close>: a lookup by value. Python compares \<^verbatim>\<open>True\<close> and
  \<^verbatim>\<open>False\<close> equal to 1 and 0; no string, list or dict equals an integer code.
\<close>

fun PowerMode_call :: "codes \<Rightarrow> json \<Rightarrow> error + PowerMode" where
  "PowerMode_call pv (JInt n) = member_of_code pv n"
| "PowerMode_call pv (JBool b) = member_of_code pv (if b then 1 else 0)"
| "PowerMode_call pv v = Inl ValueError"

text \<open>
  The body of \<^verbatim>\<open>CloudRobot.getpowermode\<close> after \<^verbatim>\<open>i = self._getinfo()\<close>:
  \<^verbatim>\<open>
    powermode = i["PowerMode"] if "PowerMode" in i else None
    isecomode = i["EcoMode"] if "EcoMode" in i else None
    if powermode is not None:   powermode = PowerMode(powermode)
    elif isecomode is not None: powermode = MEDIUM if isecomode else HIGH
    else:                       powermode = PowerMode.MEDIUM
  \<close>
\<close>

definition field_or_None :: "json \<Rightarrow> string \<Rightarrow> error + json" where
  "field_or_None i k =
     (case contains k i of
        Inl e \<Rightarrow> Inl e
      | Inr True \<Rightarrow> getitem i k
      | Inr False \<Rightarrow> Inr JNull)"

definition powermode_of_info :: "codes \<Rightarrow> json \<Rightarrow> error + PowerMode" where
  "powermode_of_info pv i =
     (case field_or_None i ''PowerMode'' of
        Inl e \<Rightarrow> Inl e
      | Inr powermode \<Rightarrow>
          (case field_or_None i ''EcoMode'' of
             Inl e \<Rightarrow> Inl e
           | Inr isecomode \<Rightarrow>
               if powermode \<noteq> JNull then PowerMode_call pv powermode
               else if isecomode \<noteq> JNull then
                 (if truthy isecomode then Inr MEDIUM else Inr HIGH)
               else Inr MEDIUM))"

section \<open>The client, the robot handle and the backend\<close>

text \<open>
  \<^verbatim>\<open>CloudClient\<close> holds the API url, the credentials dict and the HTTP basic-auth pair.
  The dict is built by \<^verbatim>\<open>__init__\<close> with exactly the keys \<^verbatim>\<open>AccountPassword\<close> and
  \<^verbatim>\<open>Email\<close> and is only read afterwards, so it is a record of these two.
\<close>

record credentials =
  AccountPassword :: string
  Email :: string

record CloudClient =
  apiurl :: string
  credentials :: credentials
  httpauth :: "string \<times> string"

text \<open>One call of \<^verbatim>\<open>do_http(method, url, auth=..., json=...)\<close> and the response object it
  returns; \<open>body\<close> is \<open>None\<close> when the payload is not JSON, so that \<^verbatim>\<open>r.json()\<close> raises.\<close>

record request =
  meth :: string
  url :: string
  auth :: "(string \<times> string) option"
  payload :: "json option"

record response =
  status_code :: int
  body :: "json option"

definition response_json :: "response \<Rightarrow> error + json" where
  "response_json r = (case body r of None \<Rightarrow> Inl JSONDecodeError | Some js \<Rightarrow> Inr js)"

text \<open>
  The remote side is a state machine over a state \<open>'w\<close> that the module cannot see:
  \<open>http\<close> is \<^verbatim>\<open>util.do_http\<close> (not part of the module, taken as given) and the four
  \<open>ws_\<close> functions are the operations of \<^verbatim>\<open>websocket.WebSocket\<close>. Each may fail.
\<close>

record 'w backend =
  http :: "request \<Rightarrow> 'w \<Rightarrow> (error + response) \<times> 'w"
  ws_connect :: "string \<Rightarrow> (string \<times> string) list \<Rightarrow> 'w \<Rightarrow> error option \<times> 'w"
  ws_send :: "json \<Rightarrow> 'w \<Rightarrow> error option \<times> 'w"
  ws_recv :: "'w \<Rightarrow> error option \<times> 'w"
  ws_close :: "'w \<Rightarrow> error option \<times> 'w"

text \<open>Every interaction with the backend is recorded, in order.\<close>

datatype event =
    Http request
  | WsConnect string "(string \<times> string) list"
  | WsSend json
  | WsRecv
  | WsClose

text \<open>
  A \<^verbatim>\<open>CloudRobot\<close>: its client, its id, the two fields of the cache it inherits from
  \<^verbatim>\<open>CachedData\<close>, and the world it talks to together with the trace of what it did there.
\<close>

record 'w robot =
  cloudclient :: CloudClient
  robot_id :: string
  cache_data :: "json option"
  cache_dirty :: bool
  world :: 'w
  trace :: "event list"

definition do_http :: "'w backend \<Rightarrow> request \<Rightarrow> 'w robot \<Rightarrow> (error + response) \<times> 'w robot" where
  "do_http be rq s =
     (case http be rq (world s) of
        (r, w) \<Rightarrow> (r, s\<lparr>world := w, trace := trace s @ [Http rq]\<rparr>))"

text \<open>The number of HTTP requests issued so far.\<close>

fun is_Http :: "event \<Rightarrow> bool" where
  "is_Http (Http rq) = True"
| "is_Http e = False"

definition fetches :: "'w robot \<Rightarrow> nat" where
  "fetches s = length (filter is_Http (trace s))"

text \<open>The websocket traffic so far.\<close>

definition ws_events :: "'w robot \<Rightarrow> event list" where
  "ws_events s = filter (\<lambda>e. \<not> is_Http e) (trace s)"

subsection \<open>Reading the snapshot\<close>

text \<open>\<^verbatim>\<open>CloudRobot._getinfo_inner\<close>: one POST to \<^verbatim>\<open>/robots/AppUpdate\<close>, returning
  \<^verbatim>\<open>r.json()\<close>.\<close>

definition AppUpdate_request :: "'w robot \<Rightarrow> request" where
  "AppUpdate_request s =
     \<lparr>meth = ''POST'',
      url = apiurl (cloudclient s) @ ''/robots/AppUpdate'',
      auth = Some (httpauth (cloudclient s)),
      payload = Some (JObj
        [(''RobotID'', JStr (robot_id s)),
         (''Email'', JStr (Email (credentials (cloudclient s)))),
         (''AccountPassword'', JStr (AccountPassword (credentials (cloudclient s))))])\<rparr>"

definition getinfo_inner :: "'w backend \<Rightarrow> 'w robot \<Rightarrow> (error + json) \<times> 'w robot" where
  "getinfo_inner be s =
     (case do_http be (AppUpdate_request s) s of
        (Inl e, s1) \<Rightarrow> (Inl e, s1)
      | (Inr r, s1) \<Rightarrow> (response_json r, s1))"

text \<open>
  Modelled from the spec: \<^verbatim>\<open>CachedData._getinfo\<close> of \<^verbatim>\<open>util.py\<close>, the cached read. It
  returns the last fetched snapshot if present and not marked dirty, otherwise performs a
  backend fetch (\<^verbatim>\<open>_getinfo_inner\<close>), stores the result, clears the dirty flag and returns
  it; a failed read leaves the cache untouched. There is no expiry timer.
\<close>

definition getinfo :: "'w backend \<Rightarrow> 'w robot \<Rightarrow> (error + json) \<times> 'w robot" where
  "getinfo be s =
     (case (cache_data s, cache_dirty s) of
        (Some d, False) \<Rightarrow> (Inr d, s)
      | _ \<Rightarrow>
          (case getinfo_inner be s of
             (Inl e, s1) \<Rightarrow> (Inl e, s1)
           | (Inr js, s1) \<Rightarrow> (Inr js, s1\<lparr>cache_data := Some js, cache_dirty := False\<rparr>)))"

text \<open>
  Modelled from the spec: \<^verbatim>\<open>CachedData._mark_changed\<close> of \<^verbatim>\<open>util.py\<close>, the invalidation,
  which sets the dirty flag and does nothing else.
\<close>

definition mark_changed :: "'w robot \<Rightarrow> 'w robot" where
  "mark_changed s = s\<lparr>cache_dirty := True\<rparr>"

text \<open>Two reads of the snapshot, one after the other: \<^verbatim>\<open>a = r._getinfo(); b = r._getinfo()\<close>.
  An exception of the first read ends the sequence.\<close>

definition read_twice :: "'w backend \<Rightarrow> 'w robot \<Rightarrow> (error + json \<times> json) \<times> 'w robot" where
  "read_twice be s =
     (case getinfo be s of
        (Inl e, s1) \<Rightarrow> (Inl e, s1)
      | (Inr a, s1) \<Rightarrow>
          (case getinfo be s1 of
             (Inl e, s2) \<Rightarrow> (Inl e, s2)
           | (Inr b, s2) \<Rightarrow> (Inr (a, b), s2)))"

text \<open>\<^verbatim>\<open>CloudRobot.getpowermode\<close>.\<close>

definition getpowermode :: "'w backend \<Rightarrow> codes \<Rightarrow> 'w robot \<Rightarrow> (error + PowerMode) \<times> 'w robot" where
  "getpowermode be pv s =
     (case getinfo be s of
        (Inl e, s1) \<Rightarrow> (Inl e, s1)
      | (Inr i, s1) \<Rightarrow> (powermode_of_info pv i, s1))"

subsection \<open>Commands\<close>

text \<open>
  \<^verbatim>\<open>CloudRobot._sendCommand\<close>:
  \<^verbatim>\<open>
    headers = self.cloudclient.credentials.copy()
    headers["RobotId"] = self.id
    ws = websocket.WebSocket()
    try:
        ws.connect(URL, header = headers)
        ws.send(json.dumps({"Type": 1, "Command": "AppUpdate", "Body": body}))
        ws.recv()
        return True
    finally:
        self._mark_changed()
        ws.close()
  \<close>
  The \<^verbatim>\<open>try\<close> block stops at the first operation that raises. The \<^verbatim>\<open>finally\<close> block runs
  in either case; an exception of \<^verbatim>\<open>ws.close()\<close> replaces the outcome of the block.
\<close>

definition ws_op :: "('w \<Rightarrow> error option \<times> 'w) \<Rightarrow> event \<Rightarrow> 'w robot \<Rightarrow> error option \<times> 'w robot" where
  "ws_op f ev s =
     (case f (world s) of
        (r, w) \<Rightarrow> (r, s\<lparr>world := w, trace := trace s @ [ev]\<rparr>))"

definition ws_url :: string where
  "ws_url = ''wss://mobile.rvccloud.electrolux.com/api/v1/websocket/AppUser''"

definition frame :: "json \<Rightarrow> json" where
  "frame b = JObj [(''Type'', JInt 1), (''Command'', JStr ''AppUpdate''), (''Body'', b)]"

definition sendCommand_try :: "'w backend \<Rightarrow> json \<Rightarrow> 'w robot \<Rightarrow> (error + bool) \<times> 'w robot" where
  "sendCommand_try be b s =
     (let headers =
            [(''AccountPassword'', AccountPassword (credentials (cloudclient s))),
             (''Email'', Email (credentials (cloudclient s))),
             (''RobotId'', robot_id s)]
      in case ws_op (ws_connect be ws_url headers) (WsConnect ws_url headers) s of
           (Some e, s1) \<Rightarrow> (Inl e, s1)
         | (None, s1) \<Rightarrow>
             (case ws_op (ws_send be (frame b)) (WsSend (frame b)) s1 of
                (Some e, s2) \<Rightarrow> (Inl e, s2)
              | (None, s2) \<Rightarrow>
                  (case ws_op (ws_recv be) WsRecv s2 of
                     (Some e, s3) \<Rightarrow> (Inl e, s3)
                   | (None, s3) \<Rightarrow> (Inr True, s3))))"

definition sendCommand :: "'w backend \<Rightarrow> json \<Rightarrow> 'w robot \<Rightarrow> (error + bool) \<times> 'w robot" where
  "sendCommand be b s =
     (case sendCommand_try be b s of
        (r, s1) \<Rightarrow>
          (case ws_op (ws_close be) WsClose (mark_changed s1) of
             (Some e, s2) \<Rightarrow> (Inl e, s2)
           | (None, s2) \<Rightarrow> (r, s2)))"

definition sendCleanCommand :: "'w backend \<Rightarrow> int \<Rightarrow> 'w robot \<Rightarrow> (error + bool) \<times> 'w robot" where
  "sendCleanCommand be command s = sendCommand be (JObj [(''CleaningCommand'', JInt command)]) s"

definition startclean :: "'w backend \<Rightarrow> 'w robot \<Rightarrow> (error + bool) \<times> 'w robot" where
  "startclean be s = sendCleanCommand be 1 s"

definition gohome :: "'w backend \<Rightarrow> 'w robot \<Rightarrow> (error + bool) \<times> 'w robot" where
  "gohome be s = sendCleanCommand be 3 s"

definition pauseclean :: "'w backend \<Rightarrow> 'w robot \<Rightarrow> (error + bool) \<times> 'w robot" where
  "pauseclean be s = sendCleanCommand be 4 s"

definition stopclean :: "'w backend \<Rightarrow> 'w robot \<Rightarrow> (error + bool) \<times> 'w robot" where
  "stopclean be s = sendCleanCommand be 5 s"

text \<open>
  \<^verbatim>\<open>CloudRobot.setpowermode\<close>. It returns \<^verbatim>\<open>None\<close> after a command that did not raise,
  whatever \<^verbatim>\<open>_sendCommand\<close> returned.
\<close>

definition discard :: "(error + bool) \<times> 'w robot \<Rightarrow> (error + unit) \<times> 'w robot" where
  "discard x = (case x of (Inl e, s) \<Rightarrow> (Inl e, s) | (Inr r, s) \<Rightarrow> (Inr (), s))"

definition setpowermode :: "'w backend \<Rightarrow> codes \<Rightarrow> PowerMode \<Rightarrow> 'w robot \<Rightarrow> (error + unit) \<times> 'w robot" where
  "setpowermode be pv mode s =
     (case getinfo be s of
        (Inl e, s1) \<Rightarrow> (Inl e, s1)
      | (Inr i, s1) \<Rightarrow>
          (case field_or_None i ''PowerMode'' of
             Inl e \<Rightarrow> (Inl e, s1)
           | Inr powermode \<Rightarrow>
               (case field_or_None i ''EcoMode'' of
                  Inl e \<Rightarrow> (Inl e, s1)
                | Inr isecomode \<Rightarrow>
                    if powermode \<noteq> JNull then
                      discard (sendCommand be (JObj [(''PowerMode'', JInt (pv mode))]) s1)
                    else if isecomode \<noteq> JNull then
                      (if mode = MEDIUM then
                         discard (sendCommand be (JObj [(''EcoMode'', JBool True)]) s1)
                       else if mode = HIGH then
                         discard (sendCommand be (JObj [(''EcoMode'', JBool False)]) s1)
                       else (Inl (Exception (''Robot does not support '' @ str_PowerMode mode)), s1))
                    else (Inl (Exception ''Robot does not support setting powermode''), s1))))"

section \<open>Cleaning history\<close>

text \<open>Exceptions propagate through a sequence of evaluations.\<close>

fun ebind :: "error + 'a \<Rightarrow> ('a \<Rightarrow> error + 'b) \<Rightarrow> error + 'b" where
  "ebind (Inl e) f = Inl e"
| "ebind (Inr v) f = f v"

text \<open>\<^verbatim>\<open>"literal" + v\<close>: only a string can be appended to a string.\<close>

fun str_add :: "string \<Rightarrow> json \<Rightarrow> error + json" where
  "str_add p (JStr u) = Inr (JStr (p @ u))"
| "str_add p v = Inl TypeError"

definition image_prefix :: string where
  "image_prefix = ''https://mobile.rvccloud.electrolux.com/image/map/png/''"

text \<open>
  The dict that \<^verbatim>\<open>getCleaningSessions\<close> builds from one entry \<open>x\<close> of a page, its items
  evaluated in the order they are written. The image is
  \<^verbatim>\<open>(prefix + x["CleaningSession"]["MapImageUrl"]) if x["CleaningSession"]["MapImageUrl"] else None\<close>.
\<close>

definition session_of :: "json \<Rightarrow> error + json" where
  "session_of x =
     ebind (getitem x ''TimeStamp'') (\<lambda>ts.
     ebind (getitem x ''CleanedArea'') (\<lambda>ca.
     ebind (getitem x ''CleaningSession'') (\<lambda>cs.
     ebind (getitem cs ''MapImageUrl'') (\<lambda>u.
     ebind (if truthy u then str_add image_prefix u else Inr JNull) (\<lambda>img.
     ebind (getitem cs ''PersistentMapId'') (\<lambda>mp.
     ebind (getitem cs ''Completion'') (\<lambda>st.
     ebind (getitem cs ''RobotUserError'') (\<lambda>ue.
     ebind (getitem cs ''RobotInternalError'') (\<lambda>ie.
       Inr (JObj
         [(''timestamp'', ts),
          (''cleaned_area'', ca),
          (''image'', img),
          (''map'', mp),
          (''status'', st),
          (''usererror'', ue),
          (''internalerror'', ie)]))))))))))"

text \<open>What a \<^verbatim>\<open>for\<close> loop sees of a value: the elements of a list, the characters of a
  string, the keys of a dict; the other values are not iterable.\<close>

fun iterate :: "json \<Rightarrow> error + json list" where
  "iterate (JArr xs) = Inr xs"
| "iterate (JStr s) = Inr (map (\<lambda>c. JStr [c]) s)"
| "iterate (JObj kvs) = Inr (map (\<lambda>kv. JStr (fst kv)) kvs)"
| "iterate v = Inl TypeError"

text \<open>
  \<^verbatim>\<open>list(map(session, filter(lambda x: x["CleaningSession"] != None, items)))\<close>: both
  \<^verbatim>\<open>filter\<close> and \<^verbatim>\<open>map\<close> are lazy, so each entry is tested and then converted before the
  next one is looked at.
\<close>

fun sessions :: "json list \<Rightarrow> error + json list" where
  "sessions [] = Inr []"
| "sessions (x # xs) =
     ebind (getitem x ''CleaningSession'') (\<lambda>cs.
       if cs \<noteq> JNull then
         ebind (session_of x) (\<lambda>y. ebind (sessions xs) (\<lambda>ys. Inr (y # ys)))
       else sessions xs)"

definition CleanedAreas_request :: "json \<Rightarrow> 'w robot \<Rightarrow> request" where
  "CleanedAreas_request nextptr s =
     \<lparr>meth = ''POST'',
      url = apiurl (cloudclient s) @ ''/robots/CleanedAreas'',
      auth = Some (httpauth (cloudclient s)),
      payload = Some (JObj
        [(''Next'', nextptr),
         (''Previous'', JNull),
         (''Limit'', JInt 50),
         (''RobotID'', JStr (robot_id s)),
         (''Email'', JStr (Email (credentials (cloudclient s)))),
         (''AccountPassword'', JStr (AccountPassword (credentials (cloudclient s))))])\<rparr>"

text \<open>
  \<^verbatim>\<open>CloudRobot.getCleaningSessions\<close>:
  \<^verbatim>\<open>
    r = do_http("POST", ".../robots/CleanedAreas", auth=..., json={"Next": nextptr, ...})
    if r.status_code == 204:
        return []
    js = r.json()
    items = list(map(session, filter(lambda x: x["CleaningSession"] != None, js["Items"])))
    if js["Next"] != None:
        items += self.getCleaningSessions(nextptr=js["Next"])
    return items
  \<close>
  The function calls itself once for every further page, each call in a frame on top of
  the frames of the calls before it. The interpreter bounds the depth of the stack (1000
  frames unless the program changes the limit) and raises \<^verbatim>\<open>RecursionError\<close> in place of
  the call that does not fit. The first argument \<open>d\<close> is the number of nested calls that
  still fit while the function runs; the exception propagates like every other one.
\<close>

fun getCleaningSessions ::
  "nat \<Rightarrow> 'w backend \<Rightarrow> json \<Rightarrow> 'w robot \<Rightarrow> (error + json list) \<times> 'w robot" where
  "getCleaningSessions d be nextptr s =
     (case do_http be (CleanedAreas_request nextptr s) s of
        (Inl e, s1) \<Rightarrow> (Inl e, s1)
      | (Inr r, s1) \<Rightarrow>
          if status_code r = 204 then (Inr [], s1)
          else
            (case response_json r of
               Inl e \<Rightarrow> (Inl e, s1)
             | Inr js \<Rightarrow>
                 (case ebind (getitem js ''Items'') (\<lambda>v. ebind (iterate v) sessions) of
                    Inl e \<Rightarrow> (Inl e, s1)
                  | Inr items \<Rightarrow>
                      (case getitem js ''Next'' of
                         Inl e \<Rightarrow> (Inl e, s1)
                       | Inr nxt \<Rightarrow>
                           if nxt \<noteq> JNull then
                             (case d of
                                0 \<Rightarrow> (Inl RecursionError, s1)
                              | Suc d' \<Rightarrow>
                                  (case getCleaningSessions d' be nxt s1 of
                                     (Inl e, s2) \<Rightarrow> (Inl e, s2)
                                   | (Inr older, s2) \<Rightarrow> (Inr (items @ older), s2)))
                           else (Inr items, s1)))))"

declare getCleaningSessions.simps [simp del]

text \<open>
  The vocabulary of the statements about the history. An entry is dropped when its
  \<^verbatim>\<open>CleaningSession\<close> sub-object is null. A well-formed entry carries the fields that
  \<^verbatim>\<open>getCleaningSessions\<close> reads of it: the key \<^verbatim>\<open>CleaningSession\<close> and, unless that is
  null, the other fields, with a map image url that is a string or empty. Its cleaning
  session is the dict of \<open>CleaningSession_entry\<close>.
\<close>

definition dropped :: "json \<Rightarrow> bool" where
  "dropped x \<longleftrightarrow> getitem x ''CleaningSession'' = Inr JNull"

definition the_field :: "json \<Rightarrow> string \<Rightarrow> json" where
  "the_field x k = (case getitem x k of Inl e \<Rightarrow> JNull | Inr v \<Rightarrow> v)"


fun image_of :: "json \<Rightarrow> json" where
  "image_of (JStr u) = (if u = [] then JNull else JStr (image_prefix @ u))"
| "image_of v = JNull"


definition CleaningSession_entry :: "json \<Rightarrow> json" where
  "CleaningSession_entry x =
     (let cs = the_field x ''CleaningSession'' in
      JObj
        [(''timestamp'', the_field x ''TimeStamp''),
         (''cleaned_area'', the_field x ''CleanedArea''),
         (''image'', image_of (the_field cs ''MapImageUrl'')),
         (''map'', the_field cs ''PersistentMapId''),
         (''status'', the_field cs ''Completion''),
         (''usererror'', the_field cs ''RobotUserError''),
         (''internalerror'', the_field cs ''RobotInternalError'')])"



definition page_sessions :: "json list \<times> json \<Rightarrow> json list" where
  "page_sessions p = map CleaningSession_entry (filter (\<lambda>x. \<not> dropped x) (fst p))"


text \<open>A read after which the cache cannot answer: the flag is set and the read fetches.\<close>

definition forces_refetch :: "'w backend \<Rightarrow> 'w robot \<Rightarrow> bool" where
  "forces_refetch be s \<longleftrightarrow> cache_dirty s \<and> fetches (snd (getinfo be s)) = Suc (fetches s)"

section \<open>Credentials\<close>

text \<open>
  A Python \<^verbatim>\<open>str\<close> is a sequence of code points. \<^verbatim>\<open>str.encode("utf-16")\<close> writes a byte
  order mark and then the UTF-16 code units in the byte order of the host; a code point in
  the surrogate range cannot be encoded. (A string holds no code point above \<open>0x10FFFF\<close>;
  the model rejects such a number like a surrogate.)
\<close>

type_synonym pystr = "nat list"

type_synonym byte = "8 word"

datatype byteorder = Little | Big

definition code_units :: "nat \<Rightarrow> error + nat list" where
  "code_units c =
     (if c < 0xD800 \<or> (0xE000 \<le> c \<and> c < 0x10000) then Inr [c]
      else if 0x10000 \<le> c \<and> c < 0x110000 then
        Inr [0xD800 + (c - 0x10000) div 0x400, 0xDC00 + (c - 0x10000) mod 0x400]
      else Inl UnicodeEncodeError)"

fun units :: "pystr \<Rightarrow> error + nat list" where
  "units [] = Inr []"
| "units (c # cs) = ebind (code_units c) (\<lambda>u. ebind (units cs) (\<lambda>us. Inr (u @ us)))"

fun unit_bytes :: "byteorder \<Rightarrow> nat \<Rightarrow> byte list" where
  "unit_bytes Little u = [of_nat (u mod 256), of_nat (u div 256)]"
| "unit_bytes Big u = [of_nat (u div 256), of_nat (u mod 256)]"

definition utf_16 :: "byteorder \<Rightarrow> pystr \<Rightarrow> error + byte list" where
  "utf_16 bo s = ebind (units s) (\<lambda>us. Inr (concat (map (unit_bytes bo) (0xFEFF # us))))"

text \<open>The encoding UTF-16LE: the code units, low byte first, without a byte order mark.\<close>

definition UTF16LE :: "pystr \<Rightarrow> error + byte list" where
  "UTF16LE s = ebind (units s) (\<lambda>us. Inr (concat (map (unit_bytes Little) us)))"

text \<open>\<^verbatim>\<open>base64.b64encode(bs).decode("ascii")\<close>, the standard alphabet with padding.\<close>

definition b64chars :: string where
  "b64chars = ''ABCDEFGHIJKLMNOPQRSTUVWXYZabcdefghijklmnopqrstuvwxyz0123456789+/''"

fun b64encode :: "byte list \<Rightarrow> string" where
  "b64encode [] = []"
| "b64encode [a] =
     (let n = unat a * 65536 in
      [b64chars ! (n div 262144), b64chars ! (n div 4096 mod 64), CHR ''='', CHR ''=''])"
| "b64encode [a, b] =
     (let n = unat a * 65536 + unat b * 256 in
      [b64chars ! (n div 262144), b64chars ! (n div 4096 mod 64),
       b64chars ! (n div 64 mod 64), CHR ''=''])"
| "b64encode (a # b # c # bs) =
     (let n = unat a * 65536 + unat b * 256 + unat c in
      [b64chars ! (n div 262144), b64chars ! (n div 4096 mod 64),
       b64chars ! (n div 64 mod 64), b64chars ! (n mod 64)] @ b64encode bs)"

text \<open>
  \<^verbatim>\<open>CloudClient.chksum\<close>:
  \<^verbatim>\<open>
    buf = pw + "947X6kdLJyrhlCDzUyzFwT4s4NZL3O8eLs0PE4Hi7hU="
    buf = buf.encode("utf-16")[2:]
    return base64.b64encode(hashlib.sha256(buf).digest()).decode("ascii")
  \<close>
  The hash function of \<^verbatim>\<open>hashlib\<close> is a parameter, and so is the byte order of the host.
\<close>

definition salt :: pystr where
  "salt = map of_char ''947X6kdLJyrhlCDzUyzFwT4s4NZL3O8eLs0PE4Hi7hU=''"

definition chksum :: "byteorder \<Rightarrow> (byte list \<Rightarrow> byte list) \<Rightarrow> pystr \<Rightarrow> error + string" where
  "chksum bo sha256 pw =
     (let buf = pw @ salt;
          enc = utf_16 bo buf
      in ebind enc (\<lambda>bs. Inr (b64encode (sha256 (drop 2 bs)))))"

text \<open>\<^verbatim>\<open>CloudClient.__init__\<close>.\<close>

definition CloudClient_init ::
  "byteorder \<Rightarrow> (byte list \<Rightarrow> byte list) \<Rightarrow> string \<Rightarrow> pystr \<Rightarrow> error + CloudClient" where
  "CloudClient_init bo sha256 email password =
     ebind (chksum bo sha256 password) (\<lambda>password.
       Inr \<lparr>apiurl = ''https://mobile.rvccloud.electrolux.com/api/v1'',
            credentials = \<lparr>AccountPassword = password, Email = email\<rparr>,
            httpauth = (email, password)\<rparr>)"

text \<open>\<^verbatim>\<open>CloudClient.getRobot\<close>: a handle with an empty cache.\<close>

definition getRobot :: "CloudClient \<Rightarrow> string \<Rightarrow> 'w \<Rightarrow> 'w robot" where
  "getRobot c rid w =
     \<lparr>cloudclient = c, robot_id = rid, cache_data = None, cache_dirty = False,
      world = w, trace = []\<rparr>"

section \<open>Maps and zones\<close>

text \<open>
  \<^verbatim>\<open>CloudZone\<close> and \<^verbatim>\<open>CloudMap\<close>. The fields are the values found in the listing payload.
  A zone refers to its map and a map to its robot; the references are kept as the id of
  the map and the id of the robot.
\<close>

record CloudZone =
  zone_cloudclient :: CloudClient
  zone_map :: json
  zone_id :: json
  zone_name :: json
  zone_type :: json
  roomcategory :: json

record CloudMap =
  map_cloudclient :: CloudClient
  map_robot :: string
  map_id :: json
  interactiveid :: json
  map_name :: json
  zones :: "CloudZone list"
  info :: "json option"
  image :: "json option"

definition CloudZone_init :: "CloudClient \<Rightarrow> json \<Rightarrow> json \<Rightarrow> error + CloudZone" where
  "CloudZone_init c mid js =
     ebind (getitem js ''Id'') (\<lambda>i.
     ebind (getitem js ''Name'') (\<lambda>n.
     ebind (getitem js ''ZoneType'') (\<lambda>t.
     ebind (getitem js ''RoomCategory'') (\<lambda>rc.
       Inr \<lparr>zone_cloudclient = c, zone_map = mid, zone_id = i, zone_name = n,
            zone_type = t, roomcategory = rc\<rparr>))))"

text \<open>\<^verbatim>\<open>list(map(f, xs))\<close> for an \<open>f\<close> that may raise: the first exception ends it.\<close>

fun emap :: "('a \<Rightarrow> error + 'b) \<Rightarrow> 'a list \<Rightarrow> error + 'b list" where
  "emap f [] = Inr []"
| "emap f (x # xs) = ebind (f x) (\<lambda>y. ebind (emap f xs) (\<lambda>ys. Inr (y # ys)))"

definition CloudMap_init :: "CloudClient \<Rightarrow> string \<Rightarrow> json \<Rightarrow> error + CloudMap" where
  "CloudMap_init c rid js =
     ebind (getitem js ''Id'') (\<lambda>i.
     ebind (getitem js ''InteractiveId'') (\<lambda>ii.
     ebind (getitem js ''Name'') (\<lambda>n.
     ebind (getitem js ''Zones'') (\<lambda>zs.
     ebind (iterate zs) (\<lambda>zl.
     ebind (emap (CloudZone_init c i) zl) (\<lambda>z.
       Inr \<lparr>map_cloudclient = c, map_robot = rid, map_id = i, interactiveid = ii,
            map_name = n, zones = z, info = None, image = None\<rparr>))))))"

text \<open>\<^verbatim>\<open>CloudRobot.getMaps\<close>: one GET of the listing, one \<^verbatim>\<open>CloudMap\<close> per element.\<close>

definition getMaps_request :: "'w robot \<Rightarrow> request" where
  "getMaps_request s =
     \<lparr>meth = ''GET'',
      url = apiurl (cloudclient s) @ ''/robots/'' @ robot_id s @ ''/interactivemaps'',
      auth = Some (httpauth (cloudclient s)),
      payload = None\<rparr>"

definition getMaps :: "'w backend \<Rightarrow> 'w robot \<Rightarrow> (error + CloudMap list) \<times> 'w robot" where
  "getMaps be s =
     (case do_http be (getMaps_request s) s of
        (Inl e, s1) \<Rightarrow> (Inl e, s1)
      | (Inr r, s1) \<Rightarrow>
          (ebind (response_json r) (\<lambda>js.
           ebind (iterate js) (emap (CloudMap_init (cloudclient s) (robot_id s)))), s1))"

text \<open>
  \<^verbatim>\<open>CloudMap.getImage\<close>: one GET of the url of the map, returning \<^verbatim>\<open>r.json()\<close>. The url
  is a concatenation of strings, which fails on an id that is not a string.
\<close>

definition getImage_url :: "CloudMap \<Rightarrow> error + string" where
  "getImage_url m =
     (case map_id m of
        JStr i \<Rightarrow>
          Inr (apiurl (map_cloudclient m) @ ''/robots/'' @ map_robot m @ ''/interactivemaps/'' @ i)
      | _ \<Rightarrow> Inl TypeError)"

definition getImage_request :: "CloudMap \<Rightarrow> string \<Rightarrow> request" where
  "getImage_request m u =
     \<lparr>meth = ''GET'', url = u, auth = Some (httpauth (map_cloudclient m)), payload = None\<rparr>"

definition getImage :: "'w backend \<Rightarrow> CloudMap \<Rightarrow> 'w robot \<Rightarrow> (error + json) \<times> 'w robot" where
  "getImage be m s =
     (case getImage_url m of
        Inl e \<Rightarrow> (Inl e, s)
      | Inr u \<Rightarrow>
          (case do_http be (getImage_request m u) s of
             (Inl e, s1) \<Rightarrow> (Inl e, s1)
           | (Inr r, s1) \<Rightarrow> (response_json r, s1)))"

text \<open>
  What it means that a zone, or a map, of the model is the one described by an element of
  a payload: every field holds the value under the corresponding key, a map has neither
  info nor image, and its zones are, one for one and in order, the zones described by the
  elements of its \<^verbatim>\<open>Zones\<close>.
\<close>

definition zone_from :: "CloudClient \<Rightarrow> json \<Rightarrow> json \<Rightarrow> CloudZone \<Rightarrow> bool" where
  "zone_from c mid z zn \<longleftrightarrow>
     zone_cloudclient zn = c \<and> zone_map zn = mid \<and>
     getitem z ''Id'' = Inr (zone_id zn) \<and> getitem z ''Name'' = Inr (zone_name zn) \<and>
     getitem z ''ZoneType'' = Inr (zone_type zn) \<and>
     getitem z ''RoomCategory'' = Inr (roomcategory zn)"

definition map_from :: "CloudClient \<Rightarrow> string \<Rightarrow> json \<Rightarrow> CloudMap \<Rightarrow> bool" where
  "map_from c rid x m \<longleftrightarrow>
     map_cloudclient m = c \<and> map_robot m = rid \<and>
     getitem x ''Id'' = Inr (map_id m) \<and> getitem x ''InteractiveId'' = Inr (interactiveid m) \<and>
     getitem x ''Name'' = Inr (map_name m) \<and> info m = None \<and> image m = None \<and>
     (case ebind (getitem x ''Zones'') iterate of
        Inl e \<Rightarrow> False
      | Inr zl \<Rightarrow> list_all2 (zone_from c (map_id m)) zl (zones m))"

section \<open>Sample backends\<close>

text \<open>The integer codes of the power modes used in the examples.\<close>

definition std_codes :: codes where
  "std_codes m = (case m of LOW \<Rightarrow> 1 | MEDIUM \<Rightarrow> 2 | HIGH \<Rightarrow> 3)"

text \<open>A backend that answers every request with the same response; its websocket works,
  or refuses every connection.\<close>

definition always :: "response \<Rightarrow> unit backend" where
  "always r =
     \<lparr>http = (\<lambda>rq w. (Inr r, w)),
      ws_connect = (\<lambda>u h w. (None, w)),
      ws_send = (\<lambda>f w. (None, w)),
      ws_recv = (\<lambda>w. (None, w)),
      ws_close = (\<lambda>w. (None, w))\<rparr>"

definition ws_down :: "response \<Rightarrow> unit backend" where
  "ws_down r = (always r)\<lparr>ws_connect := (\<lambda>u h w. (Some (TransportError ''refused''), w))\<rparr>"

definition ok :: "json \<Rightarrow> response" where
  "ok js = \<lparr>status_code = 200, body = Some js\<rparr>"

definition no_content :: response where
  "no_content = \<lparr>status_code = 204, body = None\<rparr>"

definition client0 :: CloudClient where
  "client0 =
     \<lparr>apiurl = ''https://mobile.rvccloud.electrolux.com/api/v1'',
      credentials = \<lparr>AccountPassword = ''c2VjcmV0'', Email = ''a@b.c''\<rparr>,
      httpauth = (''a@b.c'', ''c2VjcmV0'')\<rparr>"

definition robot0 :: "unit robot" where
  "robot0 = getRobot client0 ''900277'' ()"














text \<open>A backend with one map of two zones; every other url answers with the image payload
  of that map.\<close>

definition zone_js :: "string \<Rightarrow> string \<Rightarrow> json" where
  "zone_js i n =
     JObj [(''Id'', JStr i), (''Name'', JStr n), (''ZoneType'', JStr ''clean''),
           (''RoomCategory'', JInt 2)]"

definition map_js :: json where
  "map_js =
     JObj [(''Id'', JStr ''m1''), (''InteractiveId'', JStr ''i1''), (''Name'', JStr ''Home''),
           (''Zones'', JArr [zone_js ''z1'' ''Kitchen'', zone_js ''z2'' ''Hall''])]"

definition image_js :: json where
  "image_js = JObj [(''PngImage'', JStr ''iVBORw0KGgo=''), (''Scale'', JInt 4)]"

definition one_map :: "unit backend" where
  "one_map =
     (always no_content)\<lparr>http := (\<lambda>rq w.
        (Inr (ok (if url rq = url (getMaps_request robot0) then JArr [map_js] else image_js)),
         w))\<rparr>"

section \<open>Properties of the snapshot cache and the power mode\<close>

lemma field_or_None_JObj:
  "field_or_None (JObj kvs) k = (case map_of kvs k of None \<Rightarrow> Inr JNull | Some v \<Rightarrow> Inr v)"
proof (cases "map_of kvs k")
  case None
  then have "k \<notin> fst ` set kvs" by (simp add: map_of_eq_None_iff)
  with None show ?thesis by (simp add: field_or_None_def)
next
  case (Some v)
  then have "k \<in> fst ` set kvs" by (metis map_of_eq_None_iff option.distinct(1))
  with Some show ?thesis by (simp add: field_or_None_def)
qed

lemma member_of_code_inj: "inj pv \<Longrightarrow> member_of_code pv (pv m) = Inr m"
  by (cases m) (auto simp: member_of_code_def inj_eq)

lemma inj_std_codes: "inj std_codes"
  by (auto simp: inj_def std_codes_def split: PowerMode.splits)

lemma do_http_trace: "do_http be rq s = (r, s1) \<Longrightarrow> trace s1 = trace s @ [Http rq]"
  by (auto simp: do_http_def split: prod.splits)

lemma getinfo_inner_trace:
  "getinfo_inner be s = (r, s1) \<Longrightarrow> trace s1 = trace s @ [Http (AppUpdate_request s)]"
  by (auto simp: getinfo_inner_def split: prod.splits sum.splits dest: do_http_trace)

lemma getinfo_trace:
  "getinfo be s = (r, s1) \<Longrightarrow>
     trace s1 = trace s \<or> trace s1 = trace s @ [Http (AppUpdate_request s)]"
  by (auto simp: getinfo_def split: prod.splits sum.splits option.splits bool.splits
           dest: getinfo_inner_trace)

lemma getinfo_ws_events: "getinfo be s = (r, s1) \<Longrightarrow> ws_events s1 = ws_events s"
  by (drule getinfo_trace) (auto simp: ws_events_def)

lemma getinfo_fetches: "getinfo be s = (r, s1) \<Longrightarrow> fetches s1 \<le> Suc (fetches s)"
  by (drule getinfo_trace) (auto simp: fetches_def)

lemma getinfo_dirty_fetches:
  "cache_dirty s \<Longrightarrow> fetches (snd (getinfo be s)) = Suc (fetches s)"
  by (auto simp: getinfo_def fetches_def split: prod.splits sum.splits option.splits
           dest: getinfo_inner_trace)

lemma getinfo_stores:
  "getinfo be s = (Inr i, s1) \<Longrightarrow> cache_data s1 = Some i \<and> \<not> cache_dirty s1"
  by (auto simp: getinfo_def split: prod.splits sum.splits option.splits bool.splits)

lemma getinfo_hit: "cache_data s = Some i \<Longrightarrow> \<not> cache_dirty s \<Longrightarrow> getinfo be s = (Inr i, s)"
  by (simp add: getinfo_def)

lemma ws_op_dirty: "ws_op f ev s = (r, s1) \<Longrightarrow> cache_dirty s1 = cache_dirty s"
  by (auto simp: ws_op_def split: prod.splits)

lemma sendCommand_dirty: "cache_dirty (snd (sendCommand be b s))"
  by (auto simp: sendCommand_def mark_changed_def split: prod.splits option.splits
           dest: ws_op_dirty)

lemma sendCommand_forces: "forces_refetch be (snd (sendCommand be b s))"
  by (simp add: forces_refetch_def sendCommand_dirty getinfo_dirty_fetches)

lemma snd_discard: "snd (discard x) = snd x"
  by (auto simp: discard_def split: prod.splits sum.splits)

text \<open>Evaluating the sample backends.\<close>

lemma getinfo_always:
  "getinfo (always (ok js)) robot0 =
     (Inr js, robot0\<lparr>trace := [Http (AppUpdate_request robot0)],
                     cache_data := Some js, cache_dirty := False\<rparr>)"
  by (simp add: getinfo_def getinfo_inner_def do_http_def always_def ok_def robot0_def
                getRobot_def response_json_def)

lemma getinfo_ws_down:
  "getinfo (ws_down (ok js)) robot0 =
     (Inr js, robot0\<lparr>trace := [Http (AppUpdate_request robot0)],
                     cache_data := Some js, cache_dirty := False\<rparr>)"
  by (simp add: getinfo_def getinfo_inner_def do_http_def always_def ws_down_def ok_def
                robot0_def getRobot_def response_json_def)

text \<open>
  C1. For a snapshot that is a JSON object: with an integer \<^verbatim>\<open>PowerMode\<close> field,
  \<^verbatim>\<open>getpowermode\<close> returns the enum member of that code (the member \<open>m\<close> itself when the
  field holds the code of \<open>m\<close>), whatever \<^verbatim>\<open>EcoMode\<close> says; without \<^verbatim>\<open>PowerMode\<close> and with
  a boolean \<^verbatim>\<open>EcoMode\<close> it returns MEDIUM for true and HIGH for false; without both it
  returns MEDIUM.
\<close>

theorem getpowermode_resolution:
  assumes "getinfo be s = (Inr (JObj kvs), s1)"
  shows "(map_of kvs ''PowerMode'' = Some (JInt n) \<longrightarrow>
            getpowermode be pv s = (member_of_code pv n, s1)) \<and>
         (inj pv \<and> map_of kvs ''PowerMode'' = Some (JInt (pv m)) \<longrightarrow>
            getpowermode be pv s = (Inr m, s1)) \<and>
         (map_of kvs ''PowerMode'' = None \<and> map_of kvs ''EcoMode'' = Some (JBool b) \<longrightarrow>
            getpowermode be pv s = (Inr (if b then MEDIUM else HIGH), s1)) \<and>
         (map_of kvs ''PowerMode'' = None \<and> map_of kvs ''EcoMode'' = None \<longrightarrow>
            getpowermode be pv s = (Inr MEDIUM, s1))"
  using assms
  by (auto simp: getpowermode_def powermode_of_info_def field_or_None_JObj member_of_code_inj
           split: option.splits)

theorem getpowermode_resolution_witness:
  "fst (getpowermode (always (ok (JObj [(''PowerMode'', JInt 1), (''EcoMode'', JBool False)])))
          std_codes robot0) = Inr LOW \<and>
   fst (getpowermode (always (ok (JObj [(''EcoMode'', JBool True)]))) std_codes robot0)
     = Inr MEDIUM \<and>
   fst (getpowermode (always (ok (JObj [(''EcoMode'', JBool False)]))) std_codes robot0)
     = Inr HIGH \<and>
   fst (getpowermode (always (ok (JObj [(''RobotName'', JStr ''r'')]))) std_codes robot0)
     = Inr MEDIUM"
proof -
  have c: "std_codes LOW = 1" "member_of_code std_codes 1 = Inr LOW"
    by (simp_all add: std_codes_def member_of_code_def)
  show ?thesis
    using getpowermode_resolution [OF getinfo_always,
        of "[(''PowerMode'', JInt 1), (''EcoMode'', JBool False)]" 1 std_codes LOW False]
      getpowermode_resolution [OF getinfo_always, of "[(''EcoMode'', JBool True)]" 1 std_codes LOW True]
      getpowermode_resolution [OF getinfo_always, of "[(''EcoMode'', JBool False)]" 1 std_codes LOW False]
      getpowermode_resolution [OF getinfo_always, of "[(''RobotName'', JStr ''r'')]" 1 std_codes LOW False]
    by (simp add: inj_std_codes c)
qed

text \<open>
  C2. After each of the commands \<^verbatim>\<open>startclean\<close>, \<^verbatim>\<open>gohome\<close>, \<^verbatim>\<open>pauseclean\<close> and
  \<^verbatim>\<open>stopclean\<close>, and after a \<^verbatim>\<open>setpowermode\<close> that went to the websocket, the cache is
  marked dirty and the next read of the snapshot fetches from the backend. This holds for
  every backend, so both when the send succeeds and when it raises.
\<close>

theorem command_invalidates_cache:
  "forces_refetch be (snd (startclean be s)) \<and>
   forces_refetch be (snd (gohome be s)) \<and>
   forces_refetch be (snd (pauseclean be s)) \<and>
   forces_refetch be (snd (stopclean be s)) \<and>
   (ws_events (snd (setpowermode be pv mode s)) \<noteq> ws_events s \<longrightarrow>
      forces_refetch be (snd (setpowermode be pv mode s)))"
proof -
  have "forces_refetch be (snd (setpowermode be pv mode s))"
    if "ws_events (snd (setpowermode be pv mode s)) \<noteq> ws_events s"
  proof (cases "getinfo be s")
    case (Pair r s1)
    then have ws: "ws_events s1 = ws_events s" by (rule getinfo_ws_events)
    show ?thesis
      using that Pair ws
      by (auto simp: setpowermode_def snd_discard sendCommand_forces
               split: sum.splits if_splits)
  qed
  then show ?thesis
    by (simp add: startclean_def gohome_def pauseclean_def stopclean_def
                  sendCleanCommand_def sendCommand_forces)
qed

theorem command_invalidates_cache_witness:
  "fst (setpowermode (ws_down (ok (JObj [(''PowerMode'', JInt 1)]))) std_codes HIGH robot0)
     = Inl (TransportError ''refused'') \<and>
   forces_refetch (ws_down (ok (JObj [(''PowerMode'', JInt 1)])))
     (snd (setpowermode (ws_down (ok (JObj [(''PowerMode'', JInt 1)]))) std_codes HIGH robot0)) \<and>
   fst (startclean (ws_down (ok JNull)) robot0) = Inl (TransportError ''refused'') \<and>
   forces_refetch (ws_down (ok JNull)) (snd (startclean (ws_down (ok JNull)) robot0)) \<and>
   fst (stopclean (always (ok JNull)) robot0) = Inr True \<and>
   forces_refetch (always (ok JNull)) (snd (stopclean (always (ok JNull)) robot0))"
proof -
  let ?be = "ws_down (ok (JObj [(''PowerMode'', JInt 1)]))"
  have r: "setpowermode ?be std_codes HIGH robot0 =
      (Inl (TransportError ''refused''),
       robot0\<lparr>trace := [Http (AppUpdate_request robot0),
                 WsConnect ws_url [(''AccountPassword'', ''c2VjcmV0''), (''Email'', ''a@b.c''),
                                   (''RobotId'', ''900277'')],
                 WsClose],
              cache_data := Some (JObj [(''PowerMode'', JInt 1)]), cache_dirty := True\<rparr>)"
    by (simp add: setpowermode_def getinfo_ws_down field_or_None_JObj sendCommand_def
                  sendCommand_try_def ws_op_def mark_changed_def discard_def)
       (simp add: ws_down_def always_def robot0_def getRobot_def client0_def)
  have e: "ws_events (snd (setpowermode ?be std_codes HIGH robot0)) \<noteq> ws_events robot0"
    by (simp add: r) (simp add: ws_events_def robot0_def getRobot_def)
  have s1: "fst (startclean (ws_down (ok JNull)) robot0) = Inl (TransportError ''refused'')"
    by (simp add: startclean_def sendCleanCommand_def sendCommand_def sendCommand_try_def
                  ws_op_def mark_changed_def ws_down_def always_def)
  have s2: "fst (stopclean (always (ok JNull)) robot0) = Inr True"
    by (simp add: stopclean_def sendCleanCommand_def sendCommand_def sendCommand_try_def
                  ws_op_def mark_changed_def always_def)
  show ?thesis
    using command_invalidates_cache [of ?be robot0 std_codes HIGH]
      command_invalidates_cache [of "ws_down (ok JNull)" robot0 std_codes HIGH]
      command_invalidates_cache [of "always (ok JNull)" robot0 std_codes HIGH]
      e s1 s2
    by (simp add: r)
qed

text \<open>
  C4. On a robot whose snapshot has a boolean \<^verbatim>\<open>EcoMode\<close> and no \<^verbatim>\<open>PowerMode\<close>, asking
  for a mode other than MEDIUM and HIGH raises the exception "Robot does not support ..."
  and leaves the websocket untouched: the state is the one after reading the snapshot.
\<close>

theorem setpowermode_unsupported:
  assumes "getinfo be s = (Inr (JObj kvs), s1)"
    and "map_of kvs ''PowerMode'' = None"
    and "map_of kvs ''EcoMode'' = Some (JBool b)"
    and "mode \<noteq> MEDIUM" and "mode \<noteq> HIGH"
  shows "setpowermode be pv mode s =
           (Inl (Exception (''Robot does not support '' @ str_PowerMode mode)), s1) \<and>
         ws_events s1 = ws_events s"
  using assms
  by (simp add: setpowermode_def field_or_None_JObj getinfo_ws_events)

theorem setpowermode_unsupported_witness:
  "fst (setpowermode (always (ok (JObj [(''EcoMode'', JBool True)]))) std_codes LOW robot0)
     = Inl (Exception ''Robot does not support PowerMode.LOW'') \<and>
   ws_events (snd (setpowermode (always (ok (JObj [(''EcoMode'', JBool True)]))) std_codes LOW
     robot0)) = []"
  using setpowermode_unsupported [OF getinfo_always, of "[(''EcoMode'', JBool True)]" True LOW std_codes]
  by (simp add: ws_events_def robot0_def getRobot_def)

text \<open>
  C6. Two reads of the snapshot in sequence issue at most one request. When the first read
  returns a snapshot, the second returns the same snapshot and changes nothing: it is
  served from the cache.
\<close>

theorem read_twice_one_fetch:
  "fetches (snd (read_twice be s)) \<le> Suc (fetches s) \<and>
   (getinfo be s = (Inr i, s1) \<longrightarrow>
      getinfo be s1 = (Inr i, s1) \<and> read_twice be s = (Inr (i, i), s1))"
proof -
  have hit: "getinfo be s1 = (Inr i, s1)" if "getinfo be s = (Inr i, s1)" for i s1
    using getinfo_stores [OF that] by (simp add: getinfo_hit)
  have "fetches (snd (read_twice be s)) \<le> Suc (fetches s)"
  proof (cases "getinfo be s")
    case (Pair a s')
    show ?thesis
    proof (cases a)
      case (Inl e)
      with Pair getinfo_fetches [OF Pair] show ?thesis by (simp add: read_twice_def)
    next
      case (Inr j)
      with Pair have "getinfo be s = (Inr j, s')" by simp
      then have "getinfo be s' = (Inr j, s')" by (rule hit)
      with Pair Inr getinfo_fetches [OF Pair] show ?thesis by (simp add: read_twice_def)
    qed
  qed
  moreover have "read_twice be s = (Inr (i, i), s1)" if "getinfo be s = (Inr i, s1)"
    using that hit [OF that] by (simp add: read_twice_def)
  ultimately show ?thesis using hit by blast
qed

theorem read_twice_one_fetch_witness:
  "read_twice (always (ok (JObj [(''RobotName'', JStr ''r'')]))) robot0 =
     (Inr (JObj [(''RobotName'', JStr ''r'')], JObj [(''RobotName'', JStr ''r'')]),
      snd (getinfo (always (ok (JObj [(''RobotName'', JStr ''r'')]))) robot0)) \<and>
   fetches (snd (read_twice (always (ok (JObj [(''RobotName'', JStr ''r'')]))) robot0)) = 1"
  using read_twice_one_fetch [of "always (ok (JObj [(''RobotName'', JStr ''r'')]))" robot0
      "JObj [(''RobotName'', JStr ''r'')]" "snd (getinfo (always (ok (JObj [(''RobotName'', JStr ''r'')]))) robot0)"]
  by (simp add: getinfo_always) (simp add: fetches_def robot0_def getRobot_def)

text \<open>
  C10. When \<^verbatim>\<open>setpowermode\<close> refuses, on a robot with a boolean \<^verbatim>\<open>EcoMode\<close> only that is
  asked for LOW, or on a robot with neither field, it raises the exception and the state
  is the one after reading the snapshot: the snapshot is cached, the dirty flag is clear,
  and the next read returns the snapshot without changing the state, hence without a
  request.
\<close>

theorem unsupported_keeps_cache:
  assumes "getinfo be s = (Inr (JObj kvs), s1)"
    and "map_of kvs ''PowerMode'' = None"
    and "map_of kvs ''EcoMode'' = Some (JBool b) \<and> mode = LOW \<or> map_of kvs ''EcoMode'' = None"
  shows "(\<exists>msg. fst (setpowermode be pv mode s) = Inl (Exception msg)) \<and>
         snd (setpowermode be pv mode s) = s1 \<and>
         cache_data s1 = Some (JObj kvs) \<and> \<not> cache_dirty s1 \<and>
         getinfo be s1 = (Inr (JObj kvs), s1)"
proof -
  from getinfo_stores [OF assms(1)]
  have c: "cache_data s1 = Some (JObj kvs)" "\<not> cache_dirty s1" by simp_all
  then have "getinfo be s1 = (Inr (JObj kvs), s1)" by (simp add: getinfo_hit)
  with c assms show ?thesis
    by (auto simp: setpowermode_def field_or_None_JObj)
qed

theorem unsupported_keeps_cache_witness:
  "fst (setpowermode (always (ok (JObj [(''EcoMode'', JBool False)]))) std_codes LOW robot0)
     = Inl (Exception ''Robot does not support PowerMode.LOW'') \<and>
   fst (setpowermode (always (ok (JObj []))) std_codes HIGH robot0)
     = Inl (Exception ''Robot does not support setting powermode'') \<and>
   fetches (snd (getinfo (always (ok (JObj [])))
     (snd (setpowermode (always (ok (JObj []))) std_codes HIGH robot0)))) = 1"
proof -
  have a: "fst (setpowermode (always (ok (JObj [(''EcoMode'', JBool False)]))) std_codes LOW robot0)
     = Inl (Exception ''Robot does not support PowerMode.LOW'')"
    by (simp add: setpowermode_def getinfo_always field_or_None_JObj)
  have b: "fst (setpowermode (always (ok (JObj []))) std_codes HIGH robot0)
     = Inl (Exception ''Robot does not support setting powermode'')"
    by (simp add: setpowermode_def getinfo_always field_or_None_JObj)
  show ?thesis
    using unsupported_keeps_cache [OF getinfo_always, of "[(''EcoMode'', JBool False)]" False LOW std_codes]
      unsupported_keeps_cache [OF getinfo_always, of "[]" False HIGH std_codes]
    by (simp add: a b) (simp add: fetches_def robot0_def getRobot_def)
qed

section \<open>Properties of the cleaning history\<close>














lemma length_page_sessions:
  "length (page_sessions p) + length (filter dropped (fst p)) = length (fst p)"
  using sum_length_filter_compl [of dropped "fst p"] by (simp add: page_sessions_def)

lemma length_history:
  "length (concat (map page_sessions pages)) + (\<Sum>p\<leftarrow>pages. length (filter dropped (fst p)))
     = (\<Sum>p\<leftarrow>pages. length (fst p))"
proof (induction pages)
  case Nil
  then show ?case by simp
next
  case (Cons p ps)
  with length_page_sessions [of p] show ?case by simp
qed















text \<open>
  The scenario of three pages of 50, 50 and 12 entries, one entry of the second page
  without a cleaning session: 111 sessions.
\<close>

lemma history_50_50_12:
  assumes "length (fst p1) = 50" "length (fst p2) = 50" "length (fst p3) = 12"
    and "length (filter dropped (fst p1)) = 0" "length (filter dropped (fst p2)) = 1"
      "length (filter dropped (fst p3)) = 0"
  shows "length (concat (map page_sessions [p1, p2, p3])) = 111"
  using length_history [of "[p1, p2, p3]"] assms by simp

text \<open>
  C7. A page request answered with status 204 makes that call return the empty list
  instead of raising; for the first page (cursor \<^verbatim>\<open>None\<close>) the history is empty.
\<close>

theorem no_content_is_empty_page:
  assumes "do_http be (CleanedAreas_request nextptr s) s = (Inr r, s1)"
    and "status_code r = 204"
  shows "getCleaningSessions d be nextptr s = (Inr [], s1)"
  using assms by (subst getCleaningSessions.simps) simp

theorem no_content_is_empty_page_witness:
  "fst (do_http (always no_content) (CleanedAreas_request JNull robot0) robot0) = Inr no_content \<and>
   status_code no_content = 204 \<and>
   getCleaningSessions 0 (always no_content) JNull robot0 =
     (Inr [], robot0\<lparr>trace := [Http (CleanedAreas_request JNull robot0)]\<rparr>)"
proof -
  have h: "do_http (always no_content) (CleanedAreas_request JNull robot0) robot0 =
      (Inr no_content, robot0\<lparr>trace := [Http (CleanedAreas_request JNull robot0)]\<rparr>)"
    by (simp add: do_http_def always_def robot0_def getRobot_def)
  have c: "status_code no_content = 204" by (simp add: no_content_def)
  show ?thesis
    using no_content_is_empty_page [OF h c, of 0] by (simp add: h c)
qed







section \<open>Properties of the credentials\<close>

lemma drop_bom:
  "drop 2 (concat (map (unit_bytes Little) (u # us))) = concat (map (unit_bytes Little) us)"
  by simp

lemma b64encode_samples:
  "b64encode [0x4D, 0x61, 0x6E] = ''TWFu''"
  "b64encode [0x4D, 0x61] = ''TWE=''"
  "b64encode [0x4D] = ''TQ==''"
  by (simp_all add: b64chars_def)

lemma UTF16LE_samples:
  "UTF16LE [0x41, 0xE9, 0x20AC] = Inr [0x41, 0x00, 0xE9, 0x00, 0xAC, 0x20]"
  "UTF16LE [0x1F600] = Inr [0x3D, 0xD8, 0x00, 0xDE]"
  "UTF16LE [0xDC80] = Inl UnicodeEncodeError"
  by (simp_all add: UTF16LE_def code_units_def)

text \<open>On a host of the other byte order the same code hashes the big-endian encoding.\<close>

lemma chksum_Big:
  "chksum Big sha256 pw =
     ebind (units (pw @ salt)) (\<lambda>us. Inr (b64encode (sha256 (concat (map (unit_bytes Big) us)))))"
  by (cases "units (pw @ salt)") (simp_all add: chksum_def utf_16_def)

text \<open>
  C8. On a little-endian host, \<^verbatim>\<open>chksum\<close> of a password is the base64 text of the hash of
  the UTF-16LE bytes of the password followed by the salt (and fails exactly when that
  text cannot be encoded). \<^verbatim>\<open>CloudClient.__init__\<close> stores this value, and not the
  password, both as \<^verbatim>\<open>AccountPassword\<close> of the credentials and in the HTTP basic-auth
  pair; the client depends on the password through this value only.
\<close>

theorem credential_is_salted_hash:
  "chksum Little sha256 pw =
     ebind (UTF16LE (pw @ salt)) (\<lambda>bs. Inr (b64encode (sha256 bs))) \<and>
   CloudClient_init Little sha256 email pw =
     ebind (UTF16LE (pw @ salt)) (\<lambda>bs.
       Inr \<lparr>apiurl = ''https://mobile.rvccloud.electrolux.com/api/v1'',
            credentials = \<lparr>AccountPassword = b64encode (sha256 bs), Email = email\<rparr>,
            httpauth = (email, b64encode (sha256 bs))\<rparr>)"
proof -
  have c: "chksum Little sha256 pw =
      ebind (UTF16LE (pw @ salt)) (\<lambda>bs. Inr (b64encode (sha256 bs)))"
    by (cases "units (pw @ salt)") (simp_all add: chksum_def utf_16_def UTF16LE_def)
  show ?thesis
    unfolding CloudClient_init_def c by (cases "UTF16LE (pw @ salt)") simp_all
qed

section \<open>Properties of the maps\<close>

lemma emap_all2: "emap f xs = Inr ys \<Longrightarrow> list_all2 (\<lambda>x y. f x = Inr y) xs ys"
proof (induction xs arbitrary: ys)
  case Nil
  then show ?case by simp
next
  case (Cons x xs)
  then obtain z zs where z: "f x = Inr z" "emap f xs = Inr zs" "ys = z # zs"
    by (cases "f x"; cases "emap f xs") auto
  with Cons.IH [of zs] show ?case by simp
qed

lemma all2_member: "list_all2 P xs ys \<Longrightarrow> y \<in> set ys \<Longrightarrow> \<exists>x\<in>set xs. P x y"
  by (induction rule: list_all2_induct) auto

lemma CloudZone_init_from: "CloudZone_init c mid z = Inr zn \<Longrightarrow> zone_from c mid z zn"
proof -
  assume a: "CloudZone_init c mid z = Inr zn"
  then obtain i where i: "getitem z ''Id'' = Inr i"
    by (cases "getitem z ''Id''") (simp_all add: CloudZone_init_def)
  from a i obtain n where n: "getitem z ''Name'' = Inr n"
    by (cases "getitem z ''Name''") (simp_all add: CloudZone_init_def)
  from a i n obtain t where t: "getitem z ''ZoneType'' = Inr t"
    by (cases "getitem z ''ZoneType''") (simp_all add: CloudZone_init_def)
  from a i n t obtain rc where rc: "getitem z ''RoomCategory'' = Inr rc"
    by (cases "getitem z ''RoomCategory''") (simp_all add: CloudZone_init_def)
  from a i n t rc
  have "zn = \<lparr>zone_cloudclient = c, zone_map = mid, zone_id = i, zone_name = n,
              zone_type = t, roomcategory = rc\<rparr>"
    by (simp add: CloudZone_init_def)
  with i n t rc show ?thesis by (simp add: zone_from_def)
qed

lemma CloudMap_init_from:
  assumes "CloudMap_init c rid x = Inr m"
  shows "map_from c rid x m"
proof -
  from assms obtain i where i: "getitem x ''Id'' = Inr i"
    by (cases "getitem x ''Id''") (simp_all add: CloudMap_init_def)
  from assms i obtain ii where ii: "getitem x ''InteractiveId'' = Inr ii"
    by (cases "getitem x ''InteractiveId''") (simp_all add: CloudMap_init_def)
  from assms i ii obtain n where n: "getitem x ''Name'' = Inr n"
    by (cases "getitem x ''Name''") (simp_all add: CloudMap_init_def)
  from assms i ii n obtain zs where zs: "getitem x ''Zones'' = Inr zs"
    by (cases "getitem x ''Zones''") (simp_all add: CloudMap_init_def)
  from assms i ii n zs obtain zl where zl: "iterate zs = Inr zl"
    by (cases "iterate zs") (simp_all add: CloudMap_init_def)
  from assms i ii n zs zl obtain z where z: "emap (CloudZone_init c i) zl = Inr z"
    by (cases "emap (CloudZone_init c i) zl") (simp_all add: CloudMap_init_def)
  from assms i ii n zs zl z
  have m: "m = \<lparr>map_cloudclient = c, map_robot = rid, map_id = i, interactiveid = ii,
                map_name = n, zones = z, info = None, image = None\<rparr>"
    by (simp add: CloudMap_init_def)
  from emap_all2 [OF z] have "list_all2 (zone_from c i) zl z"
    by (rule list_all2_mono) (rule CloudZone_init_from)
  with m i ii n zs zl show ?thesis by (simp add: map_from_def)
qed

lemma getMaps_result:
  assumes "getMaps be s = (Inr ms, s1)"
  shows "\<exists>r xs. do_http be (getMaps_request s) s = (Inr r, s1) \<and>
           ebind (response_json r) iterate = Inr xs \<and>
           list_all2 (map_from (cloudclient s) (robot_id s)) xs ms"
proof -
  obtain a s' where h: "do_http be (getMaps_request s) s = (a, s')"
    by (cases "do_http be (getMaps_request s) s")
  with assms obtain r where r: "a = Inr r" "s' = s1"
    by (cases a) (simp_all add: getMaps_def)
  with assms h obtain js where js: "response_json r = Inr js"
    by (cases "response_json r") (simp_all add: getMaps_def)
  with assms h r obtain xs where xs: "iterate js = Inr xs"
    by (cases "iterate js") (simp_all add: getMaps_def)
  with assms h r js have "emap (CloudMap_init (cloudclient s) (robot_id s)) xs = Inr ms"
    by (simp add: getMaps_def)
  from emap_all2 [OF this] have "list_all2 (map_from (cloudclient s) (robot_id s)) xs ms"
    by (rule list_all2_mono) (rule CloudMap_init_from)
  with h r js xs show ?thesis by simp
qed

lemma getMaps_one_map:
  "getMaps one_map robot0 =
     (Inr [\<lparr>map_cloudclient = client0, map_robot = ''900277'', map_id = JStr ''m1'',
            interactiveid = JStr ''i1'', map_name = JStr ''Home'',
            zones =
              [\<lparr>zone_cloudclient = client0, zone_map = JStr ''m1'', zone_id = JStr ''z1'',
                zone_name = JStr ''Kitchen'', zone_type = JStr ''clean'', roomcategory = JInt 2\<rparr>,
               \<lparr>zone_cloudclient = client0, zone_map = JStr ''m1'', zone_id = JStr ''z2'',
                zone_name = JStr ''Hall'', zone_type = JStr ''clean'', roomcategory = JInt 2\<rparr>],
            info = None, image = None\<rparr>],
      robot0\<lparr>trace := [Http (getMaps_request robot0)]\<rparr>)"
  by (simp add: getMaps_def do_http_def one_map_def always_def ok_def response_json_def
                map_js_def zone_js_def CloudMap_init_def CloudZone_init_def)
     (simp add: robot0_def getRobot_def)

text \<open>
  C9. The listing is one request. The maps that \<^verbatim>\<open>getMaps\<close> returns are, one for one and
  in order, the maps described by the elements of the payload of that answer: each has
  the zones described by the \<^verbatim>\<open>Zones\<close> of its element, in their order, and carries no
  image. \<^verbatim>\<open>getImage\<close> issues one further request, to another url than the listing, and
  returns the JSON payload of the answer as it is.
\<close>

theorem getImage_is_separate_and_raw:
  assumes "getMaps be s = (Inr ms, s1)" and "m \<in> set ms"
    and "getImage_url m = Inr u"
    and "do_http be (getImage_request m u) s2 = (Inr r, s3)" and "body r = Some js"
  shows "(\<exists>r0 xs. do_http be (getMaps_request s) s = (Inr r0, s1) \<and>
            ebind (response_json r0) iterate = Inr xs \<and>
            list_all2 (map_from (cloudclient s) (robot_id s)) xs ms) \<and>
         trace s1 = trace s @ [Http (getMaps_request s)] \<and>
         image m = None \<and> info m = None \<and>
         getImage be m s2 = (Inr js, s3) \<and>
         trace s3 = trace s2 @ [Http (getImage_request m u)] \<and>
         url (getImage_request m u) \<noteq> url (getMaps_request s)"
proof -
  from getMaps_result [OF assms(1)] obtain r0 xs
    where l: "do_http be (getMaps_request s) s = (Inr r0, s1)"
      "ebind (response_json r0) iterate = Inr xs"
      "list_all2 (map_from (cloudclient s) (robot_id s)) xs ms"
    by blast
  from all2_member [OF l(3) assms(2)] obtain x
    where x: "map_from (cloudclient s) (robot_id s) x m" by blast
  then have f: "map_cloudclient m = cloudclient s" "map_robot m = robot_id s"
      "image m = None" "info m = None"
    by (simp_all add: map_from_def)
  from assms(3) obtain i where i: "map_id m = JStr i"
    and u: "u = apiurl (map_cloudclient m) @ ''/robots/'' @ map_robot m @ ''/interactivemaps/'' @ i"
    by (auto simp: getImage_url_def split: json.splits)
  have "length (url (getImage_request m u)) \<noteq> length (url (getMaps_request s))"
    using f by (simp add: u getImage_request_def getMaps_request_def)
  then have d: "url (getImage_request m u) \<noteq> url (getMaps_request s)" by metis
  have g: "getImage be m s2 = (Inr js, s3)"
    using assms(3-5) by (simp add: getImage_def response_json_def)
  from l f g d do_http_trace [OF l(1)] do_http_trace [OF assms(4)] show ?thesis by blast
qed

theorem getImage_is_separate_and_raw_witness:
  "map (\<lambda>m. map zone_name (zones m)) (projr (fst (getMaps one_map robot0))) =
     [[JStr ''Kitchen'', JStr ''Hall'']] \<and>
   map image (projr (fst (getMaps one_map robot0))) = [None] \<and>
   fst (getImage one_map (hd (projr (fst (getMaps one_map robot0))))
          (snd (getMaps one_map robot0))) = Inr image_js \<and>
   trace (snd (getImage one_map (hd (projr (fst (getMaps one_map robot0))))
          (snd (getMaps one_map robot0)))) =
     [Http (getMaps_request robot0),
      Http \<lparr>meth = ''GET'',
            url = ''https://mobile.rvccloud.electrolux.com/api/v1/robots/900277/interactivemaps/m1'',
            auth = Some (''a@b.c'', ''c2VjcmV0''), payload = None\<rparr>]"
proof -
  let ?m = "hd (projr (fst (getMaps one_map robot0)))"
  let ?u = "''https://mobile.rvccloud.electrolux.com/api/v1/robots/900277/interactivemaps/m1''"
  let ?s1 = "robot0\<lparr>trace := [Http (getMaps_request robot0)]\<rparr>"
  have m: "?m \<in> set (projr (fst (getMaps one_map robot0)))"
    by (simp add: getMaps_one_map)
  have l: "getMaps one_map robot0 = (Inr (projr (fst (getMaps one_map robot0))), ?s1)"
    by (simp add: getMaps_one_map)
  have u: "getImage_url ?m = Inr ?u"
    by (simp add: getMaps_one_map getImage_url_def client0_def)
  have h: "do_http one_map (getImage_request ?m ?u) ?s1 =
      (Inr (ok image_js), ?s1\<lparr>trace := trace ?s1 @ [Http (getImage_request ?m ?u)]\<rparr>)"
    by (simp add: do_http_def one_map_def always_def getImage_request_def getMaps_request_def
                  robot0_def getRobot_def client0_def)
  have b: "body (ok image_js) = Some image_js" by (simp add: ok_def)
  show ?thesis
    using getImage_is_separate_and_raw [OF l m u h b]
    by (simp add: getMaps_one_map) (simp add: getImage_request_def client0_def)
qed

end
